theory Spec2Isabelle
  imports Complex_Main
begin

section \<open>JavaScript values and errors\<close>

text \<open>
  Provider payloads have the TypeScript type \<^verbatim>\<open>any\<close>: they are whatever the JSON
  body of the response decodes to. \<open>jsval\<close> is the type of these values, together with
  the two values (\<open>undefined\<close> and \<open>NaN\<close>) that the code can compute from them.
  Numbers are exact rationals, and a number that is only passed on stands for itself.
  A product is computed in the model only where the doubles of the code compute it
  without rounding, as for integer epoch seconds multiplied by 1000. An object is the
  list of its own properties in \<^verbatim>\<open>Object.keys\<close> order.
\<close>

datatype jsval =
    JUndefined
  | JNull
  | JBool bool
  | JNum rat
  | JNaN
  | JStr string
  | JArr "jsval list"
  | JObj "(string \<times> jsval) list"

text \<open>
  What can be thrown or make a promise reject: the \<^verbatim>\<open>TypeError\<close> of reading a property
  of \<open>undefined\<close> or \<open>null\<close> (or calling something that is not a function), the
  \<^verbatim>\<open>SyntaxError\<close> of \<^verbatim>\<open>JSON.parse\<close>, the \<^verbatim>\<open>InvalidAccessError\<close> of a streaming
  connection asked to close with a code it does not accept, and the failure of the
  transport client.
\<close>

datatype js_error = TypeError | SyntaxError | InvalidAccessError | FetchError string

datatype log_entry = ConsoleError string js_error | ConsoleLog string

text \<open>
  The built-ins of the platform that the code calls on payload values and whose
  full definition lies outside the repository: \<^verbatim>\<open>new Date(v).getTime()\<close>, the
  product \<open>v * k\<close> where it takes more than exact integer arithmetic (the
  \<^verbatim>\<open>ToNumber\<close> coercion of an operand that is not a number, the rounding of a
  product of doubles), and \<^verbatim>\<open>JSON.parse\<close> (\<open>None\<close> when it throws a
  \<^verbatim>\<open>SyntaxError\<close>).
\<close>

record platform =
  Date_getTime :: "jsval \<Rightarrow> jsval"
  Multiply :: "jsval \<Rightarrow> rat \<Rightarrow> jsval"
  JSON_parse :: "string \<Rightarrow> jsval option"

fun digit_char :: "nat \<Rightarrow> char" where
  "digit_char n = char_of (48 + n)"

fun show_nat_fuel :: "nat \<Rightarrow> nat \<Rightarrow> string" where
  "show_nat_fuel 0 n = [digit_char (n mod 10)]"
| "show_nat_fuel (Suc k) n =
     (if n < 10 then [digit_char n] else show_nat_fuel k (n div 10) @ [digit_char (n mod 10)])"

text \<open>The canonical decimal name of an array index (\<open>n\<close> has at most \<open>n + 1\<close> digits).\<close>

definition show_nat :: "nat \<Rightarrow> string" where
  "show_nat n = show_nat_fuel n n"

text \<open>
  Reading an own property of an object and an element of an array: what is not there
  reads as \<open>undefined\<close>.
\<close>

definition own_property :: "(string \<times> jsval) list \<Rightarrow> string \<Rightarrow> jsval" where
  "own_property kvs k = (case map_of kvs k of Some v \<Rightarrow> v | None \<Rightarrow> JUndefined)"

definition element :: "jsval list \<Rightarrow> nat \<Rightarrow> jsval" where
  "element xs i = (if i < length xs then xs ! i else JUndefined)"

text \<open>\<^verbatim>\<open>v[i]\<close> for a non-negative integer \<open>i\<close>.\<close>

fun js_index :: "jsval \<Rightarrow> nat \<Rightarrow> js_error + jsval" where
  "js_index JUndefined i = Inl TypeError"
| "js_index JNull i = Inl TypeError"
| "js_index (JArr xs) i = Inr (element xs i)"
| "js_index (JStr s) i = Inr (if i < length s then JStr [s ! i] else JUndefined)"
| "js_index (JObj kvs) i = Inr (own_property kvs (show_nat i))"
| "js_index v i = Inr JUndefined"

text \<open>\<^verbatim>\<open>Object.entries(v)\<close>; \<^verbatim>\<open>Object.keys\<close> and \<^verbatim>\<open>Object.values\<close> are its projections.\<close>

fun js_entries :: "jsval \<Rightarrow> js_error + (string \<times> jsval) list" where
  "js_entries JUndefined = Inl TypeError"
| "js_entries JNull = Inl TypeError"
| "js_entries (JObj kvs) = Inr kvs"
| "js_entries (JArr xs) = Inr (map (\<lambda>i. (show_nat i, xs ! i)) [0..<length xs])"
| "js_entries (JStr s) = Inr (map (\<lambda>i. (show_nat i, JStr [s ! i])) [0..<length s])"
| "js_entries v = Inr []"

definition js_keys :: "jsval \<Rightarrow> js_error + string list" where
  "js_keys v = (case js_entries v of Inl e \<Rightarrow> Inl e | Inr kvs \<Rightarrow> Inr (map fst kvs))"

definition js_values :: "jsval \<Rightarrow> js_error + jsval list" where
  "js_values v = (case js_entries v of Inl e \<Rightarrow> Inl e | Inr kvs \<Rightarrow> Inr (map snd kvs))"

text \<open>
  \<^verbatim>\<open>v[k]\<close> and \<^verbatim>\<open>v.k\<close> for a property name \<open>k\<close>: own properties of an object, the
  indices and the length of an array or a string, \<open>undefined\<close> on the other
  primitives, a \<^verbatim>\<open>TypeError\<close> on \<open>undefined\<close> and \<open>null\<close>. What a value inherits
  from its prototype (\<open>constructor\<close>, the methods) is left out: the code reads
  payloads only at the names of data fields.
\<close>

fun js_get :: "jsval \<Rightarrow> string \<Rightarrow> js_error + jsval" where
  "js_get JUndefined k = Inl TypeError"
| "js_get JNull k = Inl TypeError"
| "js_get (JObj kvs) k = Inr (own_property kvs k)"
| "js_get (JArr xs) k =
     Inr (if k = ''length'' then JNum (of_nat (length xs))
          else own_property (map (\<lambda>i. (show_nat i, xs ! i)) [0..<length xs]) k)"
| "js_get (JStr s) k =
     Inr (if k = ''length'' then JNum (of_nat (length s))
          else own_property (map (\<lambda>i. (show_nat i, JStr [s ! i])) [0..<length s]) k)"
| "js_get v k = Inr JUndefined"

text \<open>Truthiness, as tested by \<^verbatim>\<open>if (v)\<close>.\<close>

fun js_truthy :: "jsval \<Rightarrow> bool" where
  "js_truthy JUndefined = False"
| "js_truthy JNull = False"
| "js_truthy (JBool b) = b"
| "js_truthy (JNum x) = (x \<noteq> 0)"
| "js_truthy JNaN = False"
| "js_truthy (JStr s) = (s \<noteq> [])"
| "js_truthy v = True"

text \<open>
  The integers that a double holds exactly, whatever their size: those of magnitude at
  most \<open>2 ^ 53\<close>.
\<close>

definition exact_integer :: "rat \<Rightarrow> bool" where
  "exact_integer x = (of_int \<lfloor>x\<rfloor> = x \<and> \<bar>x\<bar> \<le> 9007199254740992)"

text \<open>
  \<^verbatim>\<open>v * k\<close> for a numeric literal \<open>k\<close>. When both factors and their product are
  integers that a double holds exactly, the product of the doubles is the product of
  the integers. Everything else is the platform's.
\<close>

definition js_times :: "platform \<Rightarrow> jsval \<Rightarrow> rat \<Rightarrow> jsval" where
  "js_times P v k =
     (case v of
        JNum x \<Rightarrow>
          (if exact_integer x \<and> exact_integer k \<and> exact_integer (x * k) then JNum (x * k)
           else Multiply P v k)
      | _ \<Rightarrow> Multiply P v k)"

text \<open>
  \<^verbatim>\<open>String.prototype.toUpperCase\<close> on ASCII text, which is what ticker symbols are:
  the letters \<open>a\<close> to \<open>z\<close> (codes 97 to 122) move down by 32, every other character
  is kept.
\<close>

definition upper_char :: "char \<Rightarrow> char" where
  "upper_char c =
     (if 97 \<le> (of_char c :: nat) \<and> (of_char c :: nat) \<le> 122
      then char_of ((of_char c :: nat) - 32) else c)"

definition toUpperCase :: "string \<Rightarrow> string" where
  "toUpperCase s = map upper_char s"

section \<open>Targets, ranges and provider requests\<close>

text \<open>\<^verbatim>\<open>SelectableValue\<close>: only its \<open>value\<close> is ever read.\<close>

record selectable =
  "value" :: "string option"

text \<open>
  A target, \<^verbatim>\<open>Partial<MyQuery & CandleQuery>\<close>: every property may be absent
  (\<open>None\<close>).
\<close>

record my_query =
  refId :: "string option"
  symbol :: "string option"
  type :: "selectable option"
  resolution :: "string option"
  metric :: "selectable option"
  queryText :: "string option"

text \<open>
  \<^verbatim>\<open>TimeRange\<close>: its two instants, each as the epoch milliseconds of the
  \<^verbatim>\<open>DateTime\<close>; \<^verbatim>\<open>.unix()\<close> is the floor of the seconds.
\<close>

record time_range =
  range_from :: int
  range_to :: int

definition unix :: "int \<Rightarrow> int" where
  "unix ms = ms div 1000"

text \<open>
  The value of a \<open>refId\<close> property: the caller's string, or the object
  \<^verbatim>\<open>{ target }\<close> with the target as its only property.
\<close>

datatype refid_value = RefString string | RefObject my_query

text \<open>The request object; a property that the object does not have is \<open>None\<close>.\<close>

record query_params =
  q_symbol :: "string option"
  q_resolution :: "string option"
  q_from :: "int option"
  q_to :: "int option"
  q_metric :: "string option"
  q_refId :: "refid_value option"

text \<open>\<^verbatim>\<open>x?.value\<close>\<close>

definition opt_value :: "selectable option \<Rightarrow> string option" where
  "opt_value x = Option.bind x value"

definition constructQuery :: "my_query \<Rightarrow> time_range \<Rightarrow> query_params" where
  "constructQuery target rng =
     (let sym = map_option toUpperCase (symbol target);
          rid = RefObject target
      in if opt_value (type target) = Some ''candle'' then
           \<lparr>q_symbol = sym, q_resolution = resolution target,
            q_from = Some (unix (range_from rng)), q_to = Some (unix (range_to rng)),
            q_metric = None, q_refId = Some rid\<rparr>
         else if opt_value (type target) = Some ''metric'' then
           \<lparr>q_symbol = sym, q_resolution = None, q_from = None, q_to = None,
            q_metric = opt_value (metric target), q_refId = Some rid\<rparr>
         else
           \<lparr>q_symbol = sym, q_resolution = None, q_from = None, q_to = None,
            q_metric = None, q_refId = Some rid\<rparr>)"

section \<open>Response normalizers\<close>

text \<open>
  Sequencing of computations that may throw: \<open>bind_err\<close> is \<^verbatim>\<open>;\<close>, and \<open>collect\<close> runs
  a list of them in order, stopping at the first that throws.
\<close>

definition bind_err :: "js_error + 'a \<Rightarrow> ('a \<Rightarrow> js_error + 'b) \<Rightarrow> js_error + 'b" where
  "bind_err x f = (case x of Inl e \<Rightarrow> Inl e | Inr v \<Rightarrow> f v)"

fun collect :: "(js_error + 'a) list \<Rightarrow> js_error + 'a list" where
  "collect [] = Inr []"
| "collect (x # xs) =
     (case x of
        Inl e \<Rightarrow> Inl e
      | Inr v \<Rightarrow> (case collect xs of Inl e \<Rightarrow> Inl e | Inr vs \<Rightarrow> Inr (v # vs)))"

text \<open>
  \<^verbatim>\<open>v.map((x, i) => f x i)\<close>: only an array has a \<open>map\<close> method among the values that
  JSON decodes to.
\<close>

definition js_map :: "jsval \<Rightarrow> (jsval \<Rightarrow> nat \<Rightarrow> js_error + 'a) \<Rightarrow> js_error + 'a list" where
  "js_map v f =
     (case v of
        JArr xs \<Rightarrow> collect (map (\<lambda>(i, x). f x i) (enumerate 0 xs))
      | _ \<Rightarrow> Inl TypeError)"

record time_series =
  target :: string
  datapoints :: "(jsval \<times> jsval) list"

definition excludedFields :: "string list" where
  "excludedFields = [''period'', ''symbol'']"

definition candle_fields :: "string list" where
  "candle_fields = [''open price'', ''close price'']"

text \<open>The three cases of \<open>tsResponse\<close>, then the switch itself.\<close>

definition earnings_response :: "platform \<Rightarrow> jsval \<Rightarrow> js_error + time_series list" where
  "earnings_response P data =
     bind_err (js_index data 0) (\<lambda>first.
     bind_err (js_keys first) (\<lambda>ks.
       let keys = filter (\<lambda>key. key \<notin> set excludedFields) ks
       in collect (map (\<lambda>key.
            bind_err (js_map data (\<lambda>dp i.
              bind_err (js_get dp key) (\<lambda>v.
              bind_err (js_get dp ''period'') (\<lambda>period.
                Inr (v, Date_getTime P period))))) (\<lambda>dps.
            Inr \<lparr>target = key, datapoints = dps\<rparr>)) keys)))"

definition quote_response :: "platform \<Rightarrow> jsval \<Rightarrow> js_error + time_series list" where
  "quote_response P data =
     bind_err (js_get data ''c'') (\<lambda>c.
     bind_err (js_get data ''t'') (\<lambda>t.
       Inr [\<lparr>target = ''current price'', datapoints = [(c, js_times P t 1000)]\<rparr>]))"

definition candle_response :: "platform \<Rightarrow> jsval \<Rightarrow> js_error + time_series list" where
  "candle_response P data =
     collect (map (\<lambda>field.
       bind_err (js_get data ''t'') (\<lambda>t.
       bind_err (js_map t (\<lambda>time i.
         bind_err (js_get data (take 1 field)) (\<lambda>column.
         bind_err (js_index column i) (\<lambda>v.
           Inr (v, js_times P time 1000))))) (\<lambda>dps.
       Inr \<lparr>target = field, datapoints = dps\<rparr>))) candle_fields)"

definition tsResponse :: "platform \<Rightarrow> jsval \<Rightarrow> string option \<Rightarrow> js_error + time_series list" where
  "tsResponse P data ty =
     (if ty = Some ''earnings'' then earnings_response P data
      else if ty = Some ''quote'' then quote_response P data
      else if ty = Some ''candle'' then candle_response P data
      else Inr [])"

record column =
  col_text :: string
  col_type :: string

text \<open>The result of \<open>tableResponse\<close>: the empty object, or columns and rows.\<close>

datatype table_response =
    EmptyObject
  | ColumnsRows (columns: "column list") (rows: "jsval list list")

definition js_typeof_is_string :: "jsval \<Rightarrow> bool" where
  "js_typeof_is_string v = (case v of JStr s \<Rightarrow> True | _ \<Rightarrow> False)"

definition tableResponse :: "jsval list \<Rightarrow> js_error + table_response" where
  "tableResponse data =
     (case data of
        [] \<Rightarrow> Inr EmptyObject
      | first # rest \<Rightarrow>
          bind_err (js_entries first) (\<lambda>entries.
          bind_err (collect (map js_values data)) (\<lambda>rs.
            Inr (ColumnsRows
                  (map (\<lambda>(key, val).
                     \<lparr>col_text = key,
                      col_type = (if js_typeof_is_string val then ''string'' else ''number'')\<rparr>)
                     entries)
                  rs))))"

section \<open>The data source and its transport\<close>

datatype ready_state = CONNECTING | OPEN | CLOSING | CLOSED

text \<open>
  A streaming connection as the data source sees it: where it points, the state of
  the connection, and the code of the close request it was given, if any.
\<close>

record websocket =
  ws_url :: string
  readyState :: ready_state
  close_code :: "nat option"

record datasource =
  dataSourceName :: string
  token :: string
  baseUrl :: string
  websocketUrl :: string
  sockets :: "websocket list"

definition new_DataSource :: "string \<Rightarrow> string \<Rightarrow> datasource" where
  "new_DataSource name apiToken =
     \<lparr>dataSourceName = name, token = apiToken, baseUrl = ''https://finnhub.io/api/v1'',
      websocketUrl = ''wss://ws.finnhub.io?token='' @ apiToken, sockets = []\<rparr>"

text \<open>
  A call of the transport client, \<^verbatim>\<open>backendSrv.get(url, params)\<close>: the second argument
  is the request object with the token added, or is absent. The client itself is
  outside the repository: it is a function from the call to the outcome of the promise
  it returns, \<open>Inl\<close> when the promise rejects.
\<close>

record request =
  req_url :: string
  req_params :: "query_params option"
  req_token :: "string option"

type_synonym backend = "request \<Rightarrow> js_error + jsval"

text \<open>
  A settled promise: what was written to the console on the way, and the outcome,
  \<open>Inl\<close> for a rejection.
\<close>

type_synonym 'a promise = "log_entry list \<times> (js_error + 'a)"

text \<open>A string or \<open>undefined\<close> inside a template literal.\<close>

definition template :: "string option \<Rightarrow> string" where
  "template x = (case x of Some s \<Rightarrow> s | None \<Rightarrow> ''undefined'')"

definition get :: "datasource \<Rightarrow> backend \<Rightarrow> string option \<Rightarrow> query_params \<Rightarrow> jsval promise" where
  "get ds backendSrv dataType params =
     (let url = baseUrl ds @ (if dataType = Some ''quote'' then [] else ''/stock'')
      in case backendSrv \<lparr>req_url = url @ ''/'' @ template dataType,
                          req_params = Some params, req_token = Some (token ds)\<rparr> of
           Inr v \<Rightarrow> ([], Inr v)
         | Inl e \<Rightarrow> ([ConsoleError ''Error retrieving data'' e], Inl e))"

definition freeTextQuery :: "datasource \<Rightarrow> backend \<Rightarrow> string \<Rightarrow> jsval promise" where
  "freeTextQuery ds backendSrv query =
     (case backendSrv \<lparr>req_url = baseUrl ds @ ''/'' @ query @ ''&token='' @ token ds,
                       req_params = None, req_token = None\<rparr> of
        Inr v \<Rightarrow> ([], Inr v)
      | Inl e \<Rightarrow> ([ConsoleError ''Error retrieving data'' e], Inr JUndefined))"

record test_result =
  status :: string

definition testDatasource :: "datasource \<Rightarrow> backend \<Rightarrow> test_result promise" where
  "testDatasource ds backendSrv =
     (case get ds backendSrv (Some ''profile'')
             \<lparr>q_symbol = Some ''AAPL'', q_resolution = None, q_from = None, q_to = None,
              q_metric = None, q_refId = None\<rparr> of
        (msgs, Inl e) \<Rightarrow> (msgs, Inl e)
      | (msgs, Inr resp) \<Rightarrow>
          (msgs, bind_err (js_get resp ''status'') (\<lambda>st.
                  if st = JNum 200 then Inr \<lparr>status = ''success''\<rparr>
                  else Inr \<lparr>status = ''error''\<rparr>)))"

text \<open>
  \<^verbatim>\<open>socket.close(code)\<close> of the WebSocket interface. A code that is neither 1000 nor
  in the range 3000 to 4999 is refused with an \<^verbatim>\<open>InvalidAccessError\<close>, before the
  state of the connection is looked at. Otherwise a connection that is connecting or
  open starts closing, and one that is closing or closed is left as it is.
\<close>

definition ws_close :: "nat \<Rightarrow> websocket \<Rightarrow> js_error + websocket" where
  "ws_close code ws =
     (if code = 1000 \<or> (3000 \<le> code \<and> code \<le> 4999) then
        (if readyState ws = CLOSING \<or> readyState ws = CLOSED then Inr ws
         else Inr (ws\<lparr>readyState := CLOSING, close_code := Some code\<rparr>))
      else Inl InvalidAccessError)"

text \<open>
  \<^verbatim>\<open>sockets.forEach(socket => socket.close(code))\<close>: the connections in order, up to
  the first whose \<open>close\<close> throws. The list with the connections closed so far comes
  back with the exception, if there is one.
\<close>

fun close_each :: "nat \<Rightarrow> websocket list \<Rightarrow> websocket list \<times> js_error option" where
  "close_each code [] = ([], None)"
| "close_each code (ws # wss) =
     (case ws_close code ws of
        Inl e \<Rightarrow> (ws # wss, Some e)
      | Inr ws1 \<Rightarrow> (case close_each code wss of (wss1, thrown) \<Rightarrow> (ws1 # wss1, thrown)))"

definition closeSockets :: "datasource \<Rightarrow> datasource \<times> js_error option" where
  "closeSockets ds =
     (case close_each 1001 (sockets ds) of (wss, thrown) \<Rightarrow> (ds\<lparr>sockets := wss\<rparr>, thrown))"

section \<open>Streaming subscriptions\<close>

datatype field_type = FieldTime | FieldNumber

text \<open>
  \<^verbatim>\<open>CircularDataFrame\<close> with \<^verbatim>\<open>append: 'tail'\<close>: rows are added at the end and the oldest
  are dropped beyond the capacity.
\<close>

record data_frame =
  frame_refId :: "refid_value option"
  capacity :: nat
  frame_fields :: "(string \<times> field_type) list"
  frame_rows :: "(jsval \<times> jsval) list"

definition frame_add :: "data_frame \<Rightarrow> jsval \<times> jsval \<Rightarrow> data_frame" where
  "frame_add frame row =
     frame\<lparr>frame_rows :=
       drop (length (frame_rows frame) + 1 - capacity frame) (frame_rows frame @ [row])\<rparr>"

text \<open>
  One subscription of an observable built by \<open>query\<close>: the request it closes over, its
  frame, the position of its connection in the list of the data source, and whether
  its subscriber has completed.
\<close>

record subscription =
  sub_query :: query_params
  sub_frame :: data_frame
  sub_socket :: nat
  completed :: bool

record emission =
  em_data :: "data_frame list"
  em_key :: "refid_value option"

text \<open>The body of the observable, run when it is subscribed to.\<close>

definition subscribe :: "datasource \<Rightarrow> query_params \<Rightarrow> datasource \<times> subscription" where
  "subscribe ds query =
     (let frame = \<lparr>frame_refId = q_refId query, capacity = 1000,
                   frame_fields = [(''ts'', FieldTime), (''value'', FieldNumber)],
                   frame_rows = []\<rparr>;
          socket = \<lparr>ws_url = websocketUrl ds, readyState = CONNECTING, close_code = None\<rparr>
      in (ds\<lparr>sockets := sockets ds @ [socket]\<rparr>,
          \<lparr>sub_query = query, sub_frame = frame, sub_socket = length (sockets ds),
           completed = False\<rparr>))"

text \<open>\<^verbatim>\<open>merge(...observables)\<close> subscribes to each observable in turn.\<close>

fun subscribe_all :: "datasource \<Rightarrow> query_params list \<Rightarrow> datasource \<times> subscription list" where
  "subscribe_all ds [] = (ds, [])"
| "subscribe_all ds (query # queries) =
     (case subscribe ds query of
        (ds1, sub) \<Rightarrow> (case subscribe_all ds1 queries of (ds2, subs) \<Rightarrow> (ds2, sub # subs)))"

text \<open>The handshake sent by \<open>onopen\<close>: the symbol of \<^verbatim>\<open>{type: 'subscribe', symbol}\<close>.\<close>

definition onopen :: "subscription \<Rightarrow> string option" where
  "onopen sub = q_symbol (sub_query sub)"

definition onclose :: "subscription \<Rightarrow> subscription" where
  "onclose sub = sub\<lparr>completed := True\<rparr>"

text \<open>
  \<open>onmessage\<close>: the body of the \<open>try\<close> gives the new frame and whether something is
  handed to the subscriber; whatever it throws is caught and logged. A completed
  subscriber drops what it is handed.
\<close>

definition on_trade :: "subscription \<Rightarrow> jsval \<Rightarrow> js_error + (subscription \<times> emission option)" where
  "on_trade sub data =
     bind_err (js_get data ''type'') (\<lambda>ty.
       if ty = JStr ''trade'' then
         bind_err (js_get data ''data'') (\<lambda>d.
         bind_err (js_index d 0) (\<lambda>first.
         bind_err (js_get first ''t'') (\<lambda>t.
         bind_err (js_get first ''p'') (\<lambda>p.
           let frame = frame_add (sub_frame sub) (t, p)
           in Inr (sub\<lparr>sub_frame := frame\<rparr>,
                   if completed sub then None
                   else Some \<lparr>em_data = [frame], em_key = q_refId (sub_query sub)\<rparr>)))))
       else Inr (sub, None))"

definition onmessage ::
  "platform \<Rightarrow> subscription \<Rightarrow> string \<Rightarrow> subscription \<times> log_entry list \<times> emission option" where
  "onmessage P sub event_data =
     (case JSON_parse P event_data of
        None \<Rightarrow> (sub, [ConsoleError [] SyntaxError], None)
      | Some data \<Rightarrow>
          (case on_trade sub data of
             Inl e \<Rightarrow> (sub, [ConsoleError [] e], None)
           | Inr (sub1, out) \<Rightarrow> (sub1, [], out)))"

section \<open>The query operation\<close>

text \<open>
  What \<open>DataSource.ts\<close> imports from \<open>./types\<close> and \<open>./utils\<close>, which are not part of the
  sources at hand: the default target, the classifier of a target's type (it may
  throw) and \<open>ensureArray\<close>. They are parameters of the model.
\<close>

datatype target_type = Table | TimeSeries

record imported =
  defaultQuery :: my_query
  getTargetType :: "selectable option \<Rightarrow> js_error + target_type"
  ensureArray :: "jsval \<Rightarrow> jsval list"

record data_query_request =
  targets :: "my_query list"
  req_range :: time_range

definition or_else :: "'a option \<Rightarrow> 'a option \<Rightarrow> 'a option" where
  "or_else x y = (case x of Some v \<Rightarrow> Some v | None \<Rightarrow> y)"

text \<open>\<^verbatim>\<open>{ ...defaultQuery, ...target }\<close>: a property of the target wins over the default.\<close>

definition with_defaults :: "my_query \<Rightarrow> my_query \<Rightarrow> my_query" where
  "with_defaults d tgt =
     \<lparr>refId = or_else (refId tgt) (refId d),
      symbol = or_else (symbol tgt) (symbol d),
      type = or_else (type tgt) (type d),
      resolution = or_else (resolution tgt) (resolution d),
      metric = or_else (metric tgt) (metric d),
      queryText = or_else (queryText tgt) (queryText d)\<rparr>"

datatype normalized = NTable table_response | NSeries "time_series list"

text \<open>The callback of \<open>request.then\<close>: "combine received data and its target".\<close>

definition combine :: "imported \<Rightarrow> platform \<Rightarrow> selectable option \<Rightarrow> jsval \<Rightarrow> js_error + normalized" where
  "combine I P ty data =
     bind_err (getTargetType I ty) (\<lambda>tt.
       let isTable = (tt = Table)
       in bind_err (js_get data ''metric'') (\<lambda>m.
            let data1 = (if js_truthy m then m else data)
            in if isTable then
                 bind_err (tableResponse (ensureArray I data1)) (\<lambda>tab. Inr (NTable tab))
               else
                 (case ty of
                    None \<Rightarrow> Inl TypeError
                  | Some sv \<Rightarrow> bind_err (tsResponse P data1 (value sv)) (\<lambda>ss. Inr (NSeries ss)))))"

text \<open>
  The callback of \<open>targets.map\<close> in the request/response branch. The outer \<open>Inl\<close> is an
  exception thrown while the request is being issued (\<open>type.value\<close> of an absent type);
  inside is the promise returned for the target.
\<close>

definition target_promise ::
  "imported \<Rightarrow> platform \<Rightarrow> backend \<Rightarrow> datasource \<Rightarrow> time_range \<Rightarrow> my_query
     \<Rightarrow> js_error + normalized promise" where
  "target_promise I P backendSrv ds rng tgt =
     (let targetWithDefaults = with_defaults (defaultQuery I) tgt;
          ty = type targetWithDefaults;
          request =
            (case queryText targetWithDefaults of
               Some (c # cs) \<Rightarrow> Inr (freeTextQuery ds backendSrv (c # cs))
             | _ \<Rightarrow>
                 (let query = constructQuery targetWithDefaults rng
                  in case ty of
                       None \<Rightarrow> Inl TypeError
                     | Some sv \<Rightarrow> Inr (get ds backendSrv (value sv) query)))
      in case request of
           Inl e \<Rightarrow> Inl e
         | Inr (msgs, outcome) \<Rightarrow> Inr (msgs, bind_err outcome (combine I P ty)))"

text \<open>
  \<^verbatim>\<open>Promise.all\<close>: rejected as soon as one promise is. Which rejection wins when there
  are several depends on the order in which the transport answers; the model takes
  the first in the list.
\<close>

definition promise_all :: "'a promise list \<Rightarrow> 'a list promise" where
  "promise_all ps = (concat (map fst ps), collect (map snd ps))"

datatype output_item = TableOut table_response | SeriesOut time_series

text \<open>\<^verbatim>\<open>data.flat()\<close>: an array of series is spliced in, a table is one element.\<close>

definition flat :: "normalized list \<Rightarrow> output_item list" where
  "flat ns = concat (map (\<lambda>n. case n of NTable tab \<Rightarrow> [TableOut tab]
                                      | NSeries ss \<Rightarrow> map SeriesOut ss) ns)"

text \<open>
  What \<open>query\<close> gives back: an exception (of the close-all step it starts with, or
  of reading the first target or issuing a request), the merged observable (the
  requests its members close over), or the promise of the response.
\<close>

datatype query_result =
    Thrown js_error
  | Stream "query_params list"
  | Response "output_item list promise"

definition query ::
  "imported \<Rightarrow> platform \<Rightarrow> backend \<Rightarrow> datasource \<Rightarrow> data_query_request
     \<Rightarrow> datasource \<times> query_result" where
  "query I P backendSrv ds options =
     (case closeSockets ds of
        (ds1, Some e) \<Rightarrow> (ds1, Thrown e)
      | (ds1, None) \<Rightarrow>
          (let rng = req_range options
           in case targets options of
                [] \<Rightarrow> (ds1, Thrown TypeError)
              | first # rest \<Rightarrow>
                  if opt_value (type first) = Some ''quote'' then
                    (ds1, Stream (map (\<lambda>tgt. constructQuery
                                              (with_defaults (defaultQuery I) tgt) rng)
                                    (targets options)))
                  else
                    (case collect (map (target_promise I P backendSrv ds1 rng)
                                     (targets options)) of
                       Inl e \<Rightarrow> (ds1, Thrown e)
                     | Inr promises \<Rightarrow>
                         (case promise_all promises of
                            (msgs, outcome) \<Rightarrow>
                              (ds1, Response (msgs, bind_err outcome
                                                      (\<lambda>data. Inr (flat data))))))))"

section \<open>Instances of the parameters\<close>

text \<open>
  Modelled from the spec: \<open>getTargetType\<close> of \<open>./utils\<close>, which is not among the sources.
  The specification's target classifier is a static mapping from the query kind:
  "standard kinds (profile, candle, quote, earnings) route to TimeSeries"; every other
  kind (metric, free text) is tabular.
\<close>

definition spec_getTargetType :: "selectable option \<Rightarrow> js_error + target_type" where
  "spec_getTargetType ty =
     (if opt_value ty \<in> {Some ''profile'', Some ''candle'', Some ''quote'', Some ''earnings''}
      then Inr TimeSeries else Inr Table)"

text \<open>
  An instance of the imported values for the closed examples: no defaults at all, the
  classifier above, and an \<open>ensureArray\<close> that wraps what is not an array.
\<close>

definition example_imported :: imported where
  "example_imported =
     \<lparr>defaultQuery = \<lparr>refId = None, symbol = None, type = None, resolution = None,
                       metric = None, queryText = None\<rparr>,
      getTargetType = spec_getTargetType,
      ensureArray = (\<lambda>v. case v of JArr xs \<Rightarrow> xs | _ \<Rightarrow> [v])\<rparr>"

text \<open>
  The date-only ISO form \<^verbatim>\<open>YYYY-MM-DD\<close> is read by \<^verbatim>\<open>Date\<close> as midnight UTC of that
  day: the days since 1970-01-01 in the proleptic Gregorian calendar, times the
  milliseconds of a day.
\<close>

definition digit_of :: "char \<Rightarrow> nat option" where
  "digit_of c =
     (if 48 \<le> (of_char c :: nat) \<and> (of_char c :: nat) \<le> 57
      then Some ((of_char c :: nat) - 48) else None)"

fun number_of :: "nat \<Rightarrow> string \<Rightarrow> nat option" where
  "number_of acc [] = Some acc"
| "number_of acc (c # cs) =
     (case digit_of c of None \<Rightarrow> None | Some d \<Rightarrow> number_of (10 * acc + d) cs)"

definition days_from_civil :: "int \<Rightarrow> int \<Rightarrow> int \<Rightarrow> int" where
  "days_from_civil y m d =
     (let y1 = (if m \<le> 2 then y - 1 else y);
          era = y1 div 400;
          yoe = y1 - era * 400;
          mp = (m + 9) mod 12;
          doy = (153 * mp + 2) div 5 + d - 1;
          doe = yoe * 365 + yoe div 4 - yoe div 100 + doy
      in era * 146097 + doe - 719468)"

definition days_in_month :: "int \<Rightarrow> int \<Rightarrow> int" where
  "days_in_month y m =
     (if m = 2 then (if y mod 4 = 0 \<and> (y mod 100 \<noteq> 0 \<or> y mod 400 = 0) then 29 else 28)
      else if m \<in> {4, 6, 9, 11} then 30 else 31)"

definition date_only_ms :: "jsval \<Rightarrow> jsval" where
  "date_only_ms v =
     (case v of
        JStr s \<Rightarrow>
          (if length s = 10 \<and> s ! 4 = CHR ''-'' \<and> s ! 7 = CHR ''-'' then
             (case (number_of 0 (take 4 s), number_of 0 (take 2 (drop 5 s)),
                    number_of 0 (drop 8 s)) of
                (Some y, Some m, Some d) \<Rightarrow>
                  (if 1 \<le> m \<and> m \<le> 12 \<and> 1 \<le> d \<and> int d \<le> days_in_month (int y) (int m)
                   then JNum (of_int (days_from_civil (int y) (int m) (int d) * 86400000))
                   else JNaN)
              | _ \<Rightarrow> JNaN)
           else JNaN)
      | _ \<Rightarrow> JNaN)"

text \<open>
  The text of one trade message of the provider and the value \<^verbatim>\<open>JSON.parse\<close> decodes
  it to.
\<close>

definition trade_text :: string where
  \<open>trade_text = ''{"type":"trade","data":[{"t":1690000000,"p":250.5}]}''\<close>

definition trade_message :: jsval where
  "trade_message =
     JObj [(''type'', JStr ''trade''),
           (''data'', JArr [JObj [(''t'', JNum 1690000000), (''p'', JNum 250.5)]])]"

text \<open>
  An instance of the platform for the closed examples. It computes what ECMAScript
  computes on the values those examples use: dates in the date-only form, the trade
  message above, and the product of \<open>null\<close> and of a boolean with a number; it does
  not round the product of two numbers, and it answers \<open>NaN\<close> and "does not parse"
  elsewhere. The theorems about every platform do not depend on it.
\<close>

definition example_platform :: platform where
  "example_platform =
     \<lparr>Date_getTime = date_only_ms,
      Multiply = (\<lambda>v k. case v of JNum x \<Rightarrow> JNum (x * k) | JNull \<Rightarrow> JNum 0
                          | JBool b \<Rightarrow> JNum (if b then k else 0) | _ \<Rightarrow> JNaN),
      JSON_parse = (\<lambda>s. if s = trade_text then Some trade_message else None)\<rparr>"

text \<open>Targets, a range (2020-01-01 and 2020-01-02, with some milliseconds) and payloads.\<close>

definition example_range :: time_range where
  "example_range = \<lparr>range_from = 1577836800123, range_to = 1577923200999\<rparr>"

definition aapl_candle :: my_query where
  "aapl_candle =
     \<lparr>refId = Some ''A'', symbol = Some ''aapl'', type = Some \<lparr>value = Some ''candle''\<rparr>,
      resolution = Some ''D'', metric = None, queryText = None\<rparr>"

definition tsla_quote :: my_query where
  "tsla_quote =
     \<lparr>refId = Some ''A'', symbol = Some ''TSLA'', type = Some \<lparr>value = Some ''quote''\<rparr>,
      resolution = None, metric = None, queryText = None\<rparr>"

definition tsla_quote_stream :: my_query where
  "tsla_quote_stream = tsla_quote\<lparr>type := Some \<lparr>value = Some ''quote-stream''\<rparr>\<rparr>"

definition free_text_candle :: my_query where
  "free_text_candle =
     aapl_candle\<lparr>queryText := Some ''stock/candle?symbol=AAPL&resolution=D&from=1&to=2''\<rparr>"

definition example_ds :: datasource where
  "example_ds = new_DataSource ''finnhub'' ''secret''"

definition earnings_payload :: jsval where
  "earnings_payload =
     JArr [JObj [(''period'', JStr ''2020-01-01''), (''symbol'', JStr ''AAPL''),
                 (''actual'', JNum 1.1), (''estimate'', JNum 1.0)]]"

definition mixed_earnings_payload :: jsval where
  "mixed_earnings_payload =
     JArr [JObj [(''period'', JStr ''2020-01-01''), (''actual'', JNum 1.1)],
           JObj [(''period'', JStr ''2020-04-01''), (''estimate'', JNum 1.0)]]"

definition candle_payload :: jsval where
  "candle_payload =
     JObj [(''t'', JArr [JNum 100, JNum 200]), (''o'', JArr [JNum 10, JNum 11]),
           (''c'', JArr [JNum 12, JNum 13])]"

text \<open>
  What the provider answers for a range without candles, and a payload whose \<open>o\<close>
  column is shorter than its times.
\<close>

definition no_data_payload :: jsval where
  "no_data_payload = JObj [(''s'', JStr ''no_data'')]"

definition short_candle_payload :: jsval where
  "short_candle_payload =
     JObj [(''t'', JArr [JNum 100, JNum 200]), (''o'', JArr [JNum 10]),
           (''c'', JArr [JNum 12, JNum 13])]"

text \<open>A transport that fails on every call, and one that answers every call with \<open>v\<close>.\<close>

definition failing_backend :: backend where
  "failing_backend = (\<lambda>req. Inl (FetchError ''network''))"

definition constant_backend :: "jsval \<Rightarrow> backend" where
  "constant_backend v = (\<lambda>req. Inr v)"

text \<open>
  The one call of the transport client that \<open>testDatasource\<close> makes, through \<open>get\<close>:
  the profile of the fixed symbol.
\<close>

definition probe_request :: "datasource \<Rightarrow> request" where
  "probe_request ds =
     \<lparr>req_url = baseUrl ds @ ''/stock/profile'',
      req_params = Some \<lparr>q_symbol = Some ''AAPL'', q_resolution = None, q_from = None,
                         q_to = None, q_metric = None, q_refId = None\<rparr>,
      req_token = Some (token ds)\<rparr>"

text \<open>A data source that holds one open connection from an earlier batch.\<close>

definition connected_ds :: datasource where
  "connected_ds =
     example_ds\<lparr>sockets := [\<lparr>ws_url = websocketUrl example_ds, readyState = OPEN,
                              close_code = None\<rparr>]\<rparr>"

section \<open>Properties of the request builder\<close>



lemma constructQuery_symbol:
  "q_symbol (constructQuery tgt rng) = map_option toUpperCase (symbol tgt)"
  by (simp add: constructQuery_def Let_def)

lemma constructQuery_refId:
  "q_refId (constructQuery tgt rng) = Some (RefObject tgt)"
  by (simp add: constructQuery_def Let_def)

lemma with_defaults_example: "with_defaults (defaultQuery example_imported) tgt = tgt"
  by (simp add: with_defaults_def example_imported_def or_else_def split: option.splits)

lemma toUpperCase_aapl: "toUpperCase ''aapl'' = ''AAPL''"
  by code_simp


lemma close_each_1001:
  "close_each 1001 wss = (wss, if wss = [] then None else Some InvalidAccessError)"
  by (cases wss) (simp_all add: ws_close_def)

lemma closeSockets_1001:
  "closeSockets ds = (ds, if sockets ds = [] then None else Some InvalidAccessError)"
  by (simp add: closeSockets_def close_each_1001)

lemma closeSockets_example: "closeSockets example_ds = (example_ds, None)"
  by (simp add: closeSockets_1001 example_ds_def new_DataSource_def)



text \<open>
  C6, as the code has it. For every target of candle kind and every range, the request
  built by \<open>constructQuery\<close> has as \<open>from\<close> and \<open>to\<close> the integer unix seconds of the
  range's start and end (the floor of the epoch milliseconds over 1000), as symbol the
  target's symbol in upper case (absent when the target has none), and as resolution
  the target's resolution.
\<close>

theorem C6_candle_request:
  assumes "opt_value (type tgt) = Some ''candle''"
  shows "q_from (constructQuery tgt rng) = Some (range_from rng div 1000)
    \<and> q_to (constructQuery tgt rng) = Some (range_to rng div 1000)
    \<and> q_symbol (constructQuery tgt rng) = map_option toUpperCase (symbol tgt)
    \<and> q_resolution (constructQuery tgt rng) = resolution tgt"
  using assms by (simp add: constructQuery_def Let_def unix_def)

text \<open>C6 at a candle target for \<open>aapl\<close> over the first day of 2020.\<close>

theorem C6_witness:
  "opt_value (type aapl_candle) = Some ''candle''
   \<and> q_from (constructQuery aapl_candle example_range) = Some 1577836800
   \<and> q_to (constructQuery aapl_candle example_range) = Some 1577923200
   \<and> q_symbol (constructQuery aapl_candle example_range) = Some ''AAPL''
   \<and> q_resolution (constructQuery aapl_candle example_range) = Some ''D''"
proof -
  have k: "opt_value (type aapl_candle) = Some ''candle''"
    by (simp add: aapl_candle_def opt_value_def)
  from C6_candle_request [OF k, of example_range] k toUpperCase_aapl show ?thesis
    by (simp add: aapl_candle_def example_range_def)
qed

text \<open>
  C6 as it was stated fails at that target: the request's symbol is not the target's
  symbol \<open>aapl\<close> but \<open>AAPL\<close>, and its \<open>refId\<close> is not the target's \<open>refId\<close>.
\<close>

theorem C6_counterexample:
  "q_symbol (constructQuery aapl_candle example_range) \<noteq> symbol aapl_candle
   \<and> q_refId (constructQuery aapl_candle example_range)
       \<noteq> map_option RefString (refId aapl_candle)"
  by (simp add: constructQuery_symbol constructQuery_refId aapl_candle_def toUpperCase_aapl)

text \<open>
  C1 at the target \<open>tsla_quote\<close>, whose \<open>refId\<close> is \<open>A\<close>: the \<open>refId\<close> of the request
  built by \<open>constructQuery\<close> is the object \<^verbatim>\<open>{ target }\<close> wrapping the whole target, not
  the string \<open>A\<close>; \<open>query\<close> streams the batch of that target, and the frame emitted for
  the provider's trade message, like the key of the emission, carries that same
  object.
\<close>

theorem C1_refId_is_wrapped_target:
  "q_refId (constructQuery tsla_quote example_range) = Some (RefObject tsla_quote)
   \<and> q_refId (constructQuery tsla_quote example_range) \<noteq> map_option RefString (refId tsla_quote)
   \<and> snd (query example_imported example_platform failing_backend example_ds
            \<lparr>targets = [tsla_quote], req_range = example_range\<rparr>)
       = Stream [constructQuery tsla_quote example_range]
   \<and> map_option (\<lambda>em. (map frame_refId (em_data em), em_key em))
        (snd (snd (onmessage example_platform
                     (snd (subscribe example_ds (constructQuery tsla_quote example_range)))
                     trade_text)))
       = Some ([Some (RefObject tsla_quote)], Some (RefObject tsla_quote))
   \<and> refId tsla_quote = Some ''A''"
proof -
  have a: "q_refId (constructQuery tsla_quote example_range) = Some (RefObject tsla_quote)"
    by (rule constructQuery_refId)
  have b: "refId tsla_quote = Some ''A''"
    by (simp add: tsla_quote_def)
  have c: "snd (query example_imported example_platform failing_backend example_ds
            \<lparr>targets = [tsla_quote], req_range = example_range\<rparr>)
       = Stream [constructQuery tsla_quote example_range]"
    by (simp add: query_def closeSockets_example Let_def with_defaults_example)
       (simp add: tsla_quote_def opt_value_def)
  have d: "map_option (\<lambda>em. (map frame_refId (em_data em), em_key em))
        (snd (snd (onmessage example_platform
                     (snd (subscribe example_ds (constructQuery tsla_quote example_range)))
                     trade_text)))
       = Some ([Some (RefObject tsla_quote)], Some (RefObject tsla_quote))"
    by (simp add: onmessage_def example_platform_def subscribe_def Let_def on_trade_def
          trade_message_def bind_err_def frame_add_def constructQuery_refId own_property_def
          element_def)
  from a b c d show ?thesis
    by simp
qed

section \<open>Properties of the transport paths\<close>

lemma testDatasource_probe:
  "testDatasource ds backendSrv =
     (case backendSrv (probe_request ds) of
        Inl e \<Rightarrow> ([ConsoleError ''Error retrieving data'' e], Inl e)
      | Inr resp \<Rightarrow>
          ([], bind_err (js_get resp ''status'') (\<lambda>st.
                 if st = JNum 200 then Inr \<lparr>status = ''success''\<rparr>
                 else Inr \<lparr>status = ''error''\<rparr>)))"
  by (simp add: testDatasource_def get_def probe_request_def template_def Let_def
        split: sum.splits)

text \<open>
  C10. If the profile request of the connectivity probe fails in the transport, the
  failure is logged and \<open>testDatasource\<close> rejects with it: it does not answer
  \<open>{status: "error"}\<close>. That answer is given exactly when the request resolves with a
  response whose \<open>status\<close> can be read and is not the number 200.
\<close>

theorem C10_probe_failure_propagates:
  "(backendSrv (probe_request ds) = Inl e \<longrightarrow>
      testDatasource ds backendSrv = ([ConsoleError ''Error retrieving data'' e], Inl e))
   \<and> (snd (testDatasource ds backendSrv) = Inr \<lparr>status = ''error''\<rparr> \<longleftrightarrow>
        (\<exists>resp st. backendSrv (probe_request ds) = Inr resp
           \<and> js_get resp ''status'' = Inr st \<and> st \<noteq> JNum 200))"
  by (auto simp add: testDatasource_probe bind_err_def split: sum.splits if_splits)

text \<open>
  C10 at a transport that fails (the probe rejects with the failure) and at transports
  that answer with status 500 and with status 200.
\<close>

theorem C10_witness:
  "failing_backend (probe_request example_ds) = Inl (FetchError ''network'')
   \<and> testDatasource example_ds failing_backend
       = ([ConsoleError ''Error retrieving data'' (FetchError ''network'')],
          Inl (FetchError ''network''))
   \<and> snd (testDatasource example_ds (constant_backend (JObj [(''status'', JNum 500)])))
       = Inr \<lparr>status = ''error''\<rparr>
   \<and> snd (testDatasource example_ds (constant_backend (JObj [(''status'', JNum 200)])))
       = Inr \<lparr>status = ''success''\<rparr>"
proof -
  have f: "failing_backend (probe_request example_ds) = Inl (FetchError ''network'')"
    by (simp add: failing_backend_def)
  have "\<exists>resp st. constant_backend (JObj [(''status'', JNum 500)]) (probe_request example_ds)
            = Inr resp \<and> js_get resp ''status'' = Inr st \<and> st \<noteq> JNum 200"
    by (simp add: constant_backend_def own_property_def)
  with C10_probe_failure_propagates
    [of "constant_backend (JObj [(''status'', JNum 500)])" example_ds]
  have e: "snd (testDatasource example_ds (constant_backend (JObj [(''status'', JNum 500)])))
       = Inr \<lparr>status = ''error''\<rparr>"
    by blast
  have s: "snd (testDatasource example_ds (constant_backend (JObj [(''status'', JNum 200)])))
       = Inr \<lparr>status = ''success''\<rparr>"
    by (simp add: testDatasource_probe constant_backend_def bind_err_def own_property_def)
  from C10_probe_failure_propagates [of failing_backend example_ds "FetchError ''network''"] f e s
  show ?thesis
    by simp
qed

lemma get_failure:
  "backendSrv \<lparr>req_url = baseUrl ds @ (if dataType = Some ''quote'' then [] else ''/stock'')
                         @ ''/'' @ template dataType,
               req_params = Some params, req_token = Some (token ds)\<rparr> = Inl e
   \<Longrightarrow> get ds backendSrv dataType params = ([ConsoleError ''Error retrieving data'' e], Inl e)"
  by (simp add: get_def Let_def)

lemma freeTextQuery_failure:
  "backendSrv \<lparr>req_url = baseUrl ds @ ''/'' @ q @ ''&token='' @ token ds,
               req_params = None, req_token = None\<rparr> = Inl e
   \<Longrightarrow> freeTextQuery ds backendSrv q
         = ([ConsoleError ''Error retrieving data'' e], Inr JUndefined)"
  by (simp add: freeTextQuery_def)

lemma combine_undefined: "\<exists>e. combine I P ty JUndefined = Inl e"
  by (simp add: combine_def bind_err_def Let_def split: sum.splits)

lemma target_promise_free_text:
  assumes "queryText (with_defaults (defaultQuery I) tgt) = Some (c # cs)"
  shows "target_promise I P backendSrv ds rng tgt =
     Inr (fst (freeTextQuery ds backendSrv (c # cs)),
          bind_err (snd (freeTextQuery ds backendSrv (c # cs)))
            (combine I P (type (with_defaults (defaultQuery I) tgt))))"
  using assms by (simp add: target_promise_def Let_def split: prod.splits)

lemma target_promise_structured:
  assumes "queryText (with_defaults (defaultQuery I) tgt) = None
           \<or> queryText (with_defaults (defaultQuery I) tgt) = Some []"
    and "type (with_defaults (defaultQuery I) tgt) = Some sv"
  shows "target_promise I P backendSrv ds rng tgt =
     Inr (fst (get ds backendSrv (value sv)
                 (constructQuery (with_defaults (defaultQuery I) tgt) rng)),
          bind_err (snd (get ds backendSrv (value sv)
                      (constructQuery (with_defaults (defaultQuery I) tgt) rng)))
            (combine I P (Some sv)))"
  using assms by (auto simp add: target_promise_def Let_def split: prod.splits)

lemma free_text_failure_rejects_target:
  assumes "queryText (with_defaults (defaultQuery I) tgt) = Some (c # cs)"
    and "backendSrv \<lparr>req_url = baseUrl ds @ ''/'' @ (c # cs) @ ''&token='' @ token ds,
               req_params = None, req_token = None\<rparr> = Inl e"
  shows "\<exists>e'. target_promise I P backendSrv ds rng tgt
           = Inr ([ConsoleError ''Error retrieving data'' e], Inl e')"
proof -
  obtain e' where "combine I P (type (with_defaults (defaultQuery I) tgt)) JUndefined = Inl e'"
    using combine_undefined by blast
  with assms show ?thesis
    by (simp add: target_promise_free_text freeTextQuery_failure bind_err_def)
qed

lemma query_single_request:
  assumes "closeSockets ds = (ds1, None)"
    and "opt_value (type tgt) \<noteq> Some ''quote''"
    and "target_promise I P backendSrv ds1 rng tgt = Inr (msgs, outcome)"
  shows "snd (query I P backendSrv ds \<lparr>targets = [tgt], req_range = rng\<rparr>)
     = Response (msgs, bind_err outcome (\<lambda>n. Inr (flat [n])))"
  using assms
  by (simp add: query_def Let_def promise_all_def bind_err_def split: sum.splits)

text \<open>
  C4 at a transport that fails on every call. \<open>freeTextQuery\<close> logs the failure and
  resolves to \<open>undefined\<close>; the callback of \<open>query\<close> then reads \<open>data.metric\<close> of that
  \<open>undefined\<close>, so the batch of the one free-text target is rejected all the same, with a
  \<^verbatim>\<open>TypeError\<close>. The batch of the one structured target is rejected with the failure of
  the transport, which \<open>get\<close> has logged and thrown again.
\<close>

theorem C4_free_text_failure_rejects_batch:
  "freeTextQuery example_ds failing_backend ''stock/candle?symbol=AAPL&resolution=D&from=1&to=2''
     = ([ConsoleError ''Error retrieving data'' (FetchError ''network'')], Inr JUndefined)
   \<and> snd (query example_imported example_platform failing_backend example_ds
            \<lparr>targets = [free_text_candle], req_range = example_range\<rparr>)
       = Response ([ConsoleError ''Error retrieving data'' (FetchError ''network'')],
                   Inl TypeError)
   \<and> snd (query example_imported example_platform failing_backend example_ds
            \<lparr>targets = [aapl_candle], req_range = example_range\<rparr>)
       = Response ([ConsoleError ''Error retrieving data'' (FetchError ''network'')],
                   Inl (FetchError ''network''))"
proof -
  have a: "freeTextQuery ds failing_backend q
     = ([ConsoleError ''Error retrieving data'' (FetchError ''network'')], Inr JUndefined)"
    for ds q
    by (simp add: freeTextQuery_def failing_backend_def)
  have g: "get ds failing_backend dataType params
     = ([ConsoleError ''Error retrieving data'' (FetchError ''network'')],
        Inl (FetchError ''network''))"
    for ds dataType params
    by (simp add: get_def failing_backend_def Let_def)
  have u: "combine example_imported example_platform ty JUndefined = Inl TypeError" for ty
    by (simp add: combine_def bind_err_def example_imported_def spec_getTargetType_def)
  have b: "target_promise example_imported example_platform failing_backend
             example_ds example_range free_text_candle
     = Inr ([ConsoleError ''Error retrieving data'' (FetchError ''network'')], Inl TypeError)"
    by (subst target_promise_free_text
          [where c = "CHR ''s''" and cs = "''tock/candle?symbol=AAPL&resolution=D&from=1&to=2''"])
       (simp_all add: with_defaults_example free_text_candle_def a u bind_err_def)
  have c: "target_promise example_imported example_platform failing_backend
             example_ds example_range aapl_candle
     = Inr ([ConsoleError ''Error retrieving data'' (FetchError ''network'')],
            Inl (FetchError ''network''))"
    by (subst target_promise_structured [where sv = "\<lparr>value = Some ''candle''\<rparr>"])
       (simp_all add: with_defaults_example aapl_candle_def g bind_err_def)
  have k: "opt_value (type free_text_candle) \<noteq> Some ''quote''"
      "opt_value (type aapl_candle) \<noteq> Some ''quote''"
    by (simp_all add: free_text_candle_def aapl_candle_def opt_value_def)
  from a query_single_request [OF closeSockets_example k(1) b]
    query_single_request [OF closeSockets_example k(2) c]
  show ?thesis
    by (simp add: bind_err_def)
qed

section \<open>Properties of the query operation\<close>

lemma query_close_throws:
  "snd (closeSockets ds) = Some e \<Longrightarrow> query I P backendSrv ds options = (fst (closeSockets ds), Thrown e)"
  by (cases "closeSockets ds") (simp add: query_def)

lemma query_empty:
  "snd (closeSockets ds) = None \<Longrightarrow> targets options = [] \<Longrightarrow>
   snd (query I P backendSrv ds options) = Thrown TypeError"
  by (cases "closeSockets ds") (simp add: query_def Let_def)

lemma query_stream:
  "snd (closeSockets ds) = None \<Longrightarrow> targets options = first # rest \<Longrightarrow>
   opt_value (type first) = Some ''quote'' \<Longrightarrow>
   snd (query I P backendSrv ds options)
     = Stream (map (\<lambda>tgt. constructQuery (with_defaults (defaultQuery I) tgt) (req_range options))
                 (targets options))"
  by (cases "closeSockets ds") (simp add: query_def Let_def)

lemma query_request:
  "snd (closeSockets ds) = None \<Longrightarrow> targets options = first # rest \<Longrightarrow>
   opt_value (type first) \<noteq> Some ''quote'' \<Longrightarrow>
   snd (query I P backendSrv ds options)
     = (case collect (map (target_promise I P backendSrv (fst (closeSockets ds))
                             (req_range options))
                        (targets options)) of
          Inl e \<Rightarrow> Thrown e
        | Inr promises \<Rightarrow>
            Response (fst (promise_all promises),
                      bind_err (snd (promise_all promises)) (\<lambda>data. Inr (flat data))))"
  by (cases "closeSockets ds")
     (simp add: query_def Let_def split: sum.splits prod.splits)

text \<open>
  C3 at a data source that holds one open connection from an earlier batch. The
  close-all operation asks the connection to close with the code 1001, which the
  connection refuses with an \<^verbatim>\<open>InvalidAccessError\<close>: \<open>closeSockets\<close> throws, \<open>query\<close>
  throws with it before it looks at the batch, and the connection is still open and
  still in the list.
\<close>

theorem C3_close_all_throws:
  "map readyState (sockets connected_ds) = [OPEN]
   \<and> closeSockets connected_ds = (connected_ds, Some InvalidAccessError)
   \<and> query example_imported example_platform failing_backend connected_ds
        \<lparr>targets = [tsla_quote], req_range = example_range\<rparr>
       = (connected_ds, Thrown InvalidAccessError)"
proof -
  have s: "map readyState (sockets connected_ds) = [OPEN]"
    by (simp add: connected_ds_def)
  have c: "closeSockets connected_ds = (connected_ds, Some InvalidAccessError)"
    by (simp add: closeSockets_1001) (simp add: connected_ds_def)
  from s c show ?thesis
    by (simp add: query_def)
qed

text \<open>
  C2, as the code has it. \<open>query\<close> starts with the close-all operation, and an
  exception of that operation is the result of \<open>query\<close>. When the close-all operation
  completes, then for every batch with at least one target \<open>query\<close> gives the merged
  stream exactly when the kind of the first target, as the caller gave it, is
  \<open>quote\<close>. Then every target of the batch gets a subscription, whatever its own kind.
  Otherwise every target of the batch goes through the request path: an exception of
  the first target whose request cannot be issued, or the promise of all the
  normalized responses.
\<close>

theorem C2_streams_iff_first_is_quote:
  assumes "targets options = first # rest"
  shows "(\<forall>e. snd (closeSockets ds) = Some e \<longrightarrow>
            snd (query I P backendSrv ds options) = Thrown e)
    \<and> (snd (closeSockets ds) = None \<longrightarrow>
         ((\<exists>qs. snd (query I P backendSrv ds options) = Stream qs)
            \<longleftrightarrow> opt_value (type first) = Some ''quote'')
       \<and> (opt_value (type first) = Some ''quote'' \<longrightarrow>
            snd (query I P backendSrv ds options)
              = Stream (map (\<lambda>tgt. constructQuery (with_defaults (defaultQuery I) tgt)
                                     (req_range options))
                          (targets options)))
       \<and> (opt_value (type first) \<noteq> Some ''quote'' \<longrightarrow>
            snd (query I P backendSrv ds options)
              = (case collect (map (target_promise I P backendSrv (fst (closeSockets ds))
                                      (req_range options))
                                 (targets options)) of
                   Inl e \<Rightarrow> Thrown e
                 | Inr promises \<Rightarrow>
                     Response (fst (promise_all promises),
                               bind_err (snd (promise_all promises))
                                 (\<lambda>data. Inr (flat data))))))"
proof -
  have a: "\<forall>e. snd (closeSockets ds) = Some e \<longrightarrow>
            snd (query I P backendSrv ds options) = Thrown e"
    by (simp add: query_close_throws)
  have b: "snd (closeSockets ds) = None \<longrightarrow>
         ((\<exists>qs. snd (query I P backendSrv ds options) = Stream qs)
            \<longleftrightarrow> opt_value (type first) = Some ''quote'')
       \<and> (opt_value (type first) = Some ''quote'' \<longrightarrow>
            snd (query I P backendSrv ds options)
              = Stream (map (\<lambda>tgt. constructQuery (with_defaults (defaultQuery I) tgt)
                                     (req_range options))
                          (targets options)))
       \<and> (opt_value (type first) \<noteq> Some ''quote'' \<longrightarrow>
            snd (query I P backendSrv ds options)
              = (case collect (map (target_promise I P backendSrv (fst (closeSockets ds))
                                      (req_range options))
                                 (targets options)) of
                   Inl e \<Rightarrow> Thrown e
                 | Inr promises \<Rightarrow>
                     Response (fst (promise_all promises),
                               bind_err (snd (promise_all promises))
                                 (\<lambda>data. Inr (flat data)))))"
  proof
    assume n: "snd (closeSockets ds) = None"
    show "((\<exists>qs. snd (query I P backendSrv ds options) = Stream qs)
            \<longleftrightarrow> opt_value (type first) = Some ''quote'')
       \<and> (opt_value (type first) = Some ''quote'' \<longrightarrow>
            snd (query I P backendSrv ds options)
              = Stream (map (\<lambda>tgt. constructQuery (with_defaults (defaultQuery I) tgt)
                                     (req_range options))
                          (targets options)))
       \<and> (opt_value (type first) \<noteq> Some ''quote'' \<longrightarrow>
            snd (query I P backendSrv ds options)
              = (case collect (map (target_promise I P backendSrv (fst (closeSockets ds))
                                      (req_range options))
                                 (targets options)) of
                   Inl e \<Rightarrow> Thrown e
                 | Inr promises \<Rightarrow>
                     Response (fst (promise_all promises),
                               bind_err (snd (promise_all promises))
                                 (\<lambda>data. Inr (flat data)))))"
    proof (cases "opt_value (type first) = Some ''quote''")
      case True
      with assms n show ?thesis
        by (simp add: query_stream)
    next
      case False
      with assms n show ?thesis
        by (simp add: query_request split: sum.splits)
    qed
  qed
  from a b show ?thesis
    by blast
qed

text \<open>
  C2 at a batch of a quote target and a candle target, on a data source that holds no
  connection: both are streamed, the candle target too.
\<close>

theorem C2_witness:
  "snd (closeSockets example_ds) = None
   \<and> snd (query example_imported example_platform failing_backend example_ds
          \<lparr>targets = [tsla_quote, aapl_candle], req_range = example_range\<rparr>)
     = Stream [constructQuery tsla_quote example_range,
               constructQuery aapl_candle example_range]"
proof -
  have k: "opt_value (type tsla_quote) = Some ''quote''"
    by (simp add: tsla_quote_def opt_value_def)
  have n: "snd (closeSockets example_ds) = None"
    by (simp add: closeSockets_example)
  from C2_streams_iff_first_is_quote
    [of "\<lparr>targets = [tsla_quote, aapl_candle], req_range = example_range\<rparr>"
        tsla_quote "[aapl_candle]" example_ds example_imported example_platform failing_backend]
    k n
  show ?thesis
    by (simp add: with_defaults_example)
qed

text \<open>
  C2 as it was stated fails: a batch whose first target has the kind \<open>quote-stream\<close> is
  not streamed (its request is issued and, here, fails in the transport), and a batch
  whose first target has the kind \<open>quote\<close> is.
\<close>

theorem C2_counterexample:
  "opt_value (type tsla_quote_stream) = Some ''quote-stream''
   \<and> snd (query example_imported example_platform failing_backend example_ds
            \<lparr>targets = [tsla_quote_stream], req_range = example_range\<rparr>)
       = Response ([ConsoleError ''Error retrieving data'' (FetchError ''network'')],
                   Inl (FetchError ''network''))
   \<and> opt_value (type tsla_quote) = Some ''quote''
   \<and> snd (query example_imported example_platform failing_backend example_ds
            \<lparr>targets = [tsla_quote], req_range = example_range\<rparr>)
       = Stream [constructQuery tsla_quote example_range]"
proof -
  have g: "get ds failing_backend dataType params
     = ([ConsoleError ''Error retrieving data'' (FetchError ''network'')],
        Inl (FetchError ''network''))"
    for ds dataType params
    by (simp add: get_def failing_backend_def Let_def)
  have k: "opt_value (type tsla_quote_stream) = Some ''quote-stream''"
     "opt_value (type tsla_quote) = Some ''quote''"
    by (simp_all add: tsla_quote_stream_def tsla_quote_def opt_value_def)
  have c: "target_promise example_imported example_platform failing_backend
             example_ds example_range tsla_quote_stream
     = Inr ([ConsoleError ''Error retrieving data'' (FetchError ''network'')],
            Inl (FetchError ''network''))"
    by (subst target_promise_structured [where sv = "\<lparr>value = Some ''quote-stream''\<rparr>"])
       (simp_all add: with_defaults_example tsla_quote_stream_def tsla_quote_def g bind_err_def)
  have n: "opt_value (type tsla_quote_stream) \<noteq> Some ''quote''"
    by (simp add: k)
  have s: "snd (query example_imported example_platform failing_backend example_ds
            \<lparr>targets = [tsla_quote], req_range = example_range\<rparr>)
       = Stream [constructQuery tsla_quote example_range]"
    by (simp add: query_stream [of _ _ tsla_quote "[]"] closeSockets_example k
          with_defaults_example)
  from k s query_single_request [OF closeSockets_example n c] show ?thesis
    by (simp add: bind_err_def)
qed

section \<open>Properties of the normalizers\<close>

lemma collect_Inr: "collect (map (\<lambda>x. Inr (f x)) xs) = Inr (map f xs)"
  by (induction xs) simp_all

lemma js_map_array:
  "js_map (JArr xs) f = collect (map (\<lambda>(i, x). f x i) (enumerate 0 xs))"
  by (simp add: js_map_def)

lemma bind_err_simps [simp]:
  "bind_err (Inr v) f = f v"
  "bind_err (Inl e) f = Inl e"
  by (simp_all add: bind_err_def)

lemma js_map_no_index: "js_map (JArr xs) (\<lambda>d i. h d) = collect (map h xs)"
proof -
  have "map (\<lambda>(i, x). h x) (enumerate 0 xs) = map (h \<circ> snd) (enumerate 0 xs)"
    by (simp add: case_prod_unfold comp_def)
  also have "\<dots> = map h (map snd (enumerate 0 xs))"
    by (simp only: map_map)
  finally show ?thesis
    by (simp add: js_map_array)
qed

lemma earnings_datapoints:
  "js_map (JArr (map JObj objs)) (\<lambda>d i.
      bind_err (js_get d key) (\<lambda>v.
      bind_err (js_get d ''period'') (\<lambda>period. Inr (v, Date_getTime P period))))
   = Inr (map (\<lambda>kvs. (own_property kvs key, Date_getTime P (own_property kvs ''period'')))
            objs)"
  by (simp add: js_map_no_index comp_def collect_Inr)

lemma earnings_response_objects:
  "earnings_response P (JArr (map JObj (dp # dps)))
     = Inr (map (\<lambda>key. \<lparr>target = key,
                          datapoints = map (\<lambda>kvs. (own_property kvs key,
                                                    Date_getTime P (own_property kvs ''period'')))
                                         (dp # dps)\<rparr>)
              (filter (\<lambda>key. key \<noteq> ''period'' \<and> key \<noteq> ''symbol'') (map fst dp)))"
proof -
  have f: "js_index (JArr (map JObj (dp # dps))) 0 = Inr (JObj dp)"
    by (simp add: element_def)
  have k: "js_keys (JObj dp) = Inr (map fst dp)"
    by (simp add: js_keys_def)
  have "earnings_response P (JArr (map JObj (dp # dps)))
     = collect (map (\<lambda>key. Inr \<lparr>target = key,
                          datapoints = map (\<lambda>kvs. (own_property kvs key,
                                                    Date_getTime P (own_property kvs ''period'')))
                                         (dp # dps)\<rparr>)
              (filter (\<lambda>key. key \<notin> set excludedFields) (map fst dp)))"
    unfolding earnings_response_def
    by (simp only: f k bind_err_simps Let_def earnings_datapoints)
  then show ?thesis
    by (simp only: collect_Inr) (simp add: excludedFields_def)
qed

lemma collect_map_elem:
  "collect (map F xs) = Inr ys \<Longrightarrow> y \<in> set ys \<Longrightarrow> \<exists>x \<in> set xs. F x = Inr y"
  by (induction xs arbitrary: ys) (auto split: sum.splits)

lemma earnings_response_names:
  assumes "earnings_response P data = Inr ss" and "s \<in> set ss"
  shows "target s \<notin> set excludedFields"
proof -
  from assms(1) obtain ks where
    c: "collect (map (\<lambda>key.
            bind_err (js_map data (\<lambda>dp i.
              bind_err (js_get dp key) (\<lambda>v.
              bind_err (js_get dp ''period'') (\<lambda>period.
                Inr (v, Date_getTime P period))))) (\<lambda>dps.
            Inr \<lparr>target = key, datapoints = dps\<rparr>))
          (filter (\<lambda>key. key \<notin> set excludedFields) ks)) = Inr ss"
    by (auto simp add: earnings_response_def bind_err_def Let_def split: sum.splits)
  from collect_map_elem [OF c assms(2)] obtain key where
    "key \<in> set (filter (\<lambda>key. key \<notin> set excludedFields) ks)"
    "bind_err (js_map data (\<lambda>dp i.
              bind_err (js_get dp key) (\<lambda>v.
              bind_err (js_get dp ''period'') (\<lambda>period.
                Inr (v, Date_getTime P period))))) (\<lambda>dps.
            Inr \<lparr>target = key, datapoints = dps\<rparr>) = Inr s"
    by blast
  then have "key \<notin> set excludedFields" "target s = key"
    by (auto simp add: bind_err_def split: sum.splits)
  then show ?thesis
    by simp
qed

lemma tsResponse_earnings: "tsResponse P data (Some ''earnings'') = earnings_response P data"
  by (simp add: tsResponse_def)

text \<open>
  C7, as the code has it. Whatever the payload, the time-series normalizer never
  answers an earnings payload with a series named \<open>period\<close> or \<open>symbol\<close>. For every
  non-empty earnings payload (an array of data points, each an object) it yields one
  named series per field of the first data point other than \<open>period\<close> and \<open>symbol\<close>,
  in the order of these fields; the samples of a series are, for every data point in
  payload order, the data point's value of that field (\<open>undefined\<close> where the data
  point has no such field) and the epoch milliseconds of the data point's period. A
  field that only a later data point has gets no series. The payload of one data point
  for \<open>2020-01-01\<close> with the fields \<open>actual\<close> and \<open>estimate\<close> yields exactly these two
  series, each with one sample at the epoch milliseconds of that date.
\<close>

theorem C7_earnings_series:
  "(tsResponse P data (Some ''earnings'') = Inr ss \<longrightarrow>
      ''period'' \<notin> target ` set ss \<and> ''symbol'' \<notin> target ` set ss)
   \<and> tsResponse P (JArr (map JObj (dp # dps))) (Some ''earnings'')
       = Inr (map (\<lambda>key. \<lparr>target = key,
                            datapoints = map (\<lambda>kvs. (own_property kvs key,
                                          Date_getTime P (own_property kvs ''period'')))
                                           (dp # dps)\<rparr>)
                (filter (\<lambda>key. key \<noteq> ''period'' \<and> key \<noteq> ''symbol'') (map fst dp)))
   \<and> tsResponse P earnings_payload (Some ''earnings'')
       = Inr [\<lparr>target = ''actual'',
               datapoints = [(JNum 1.1, Date_getTime P (JStr ''2020-01-01''))]\<rparr>,
              \<lparr>target = ''estimate'',
               datapoints = [(JNum 1.0, Date_getTime P (JStr ''2020-01-01''))]\<rparr>]"
proof -
  have a: "tsResponse P data (Some ''earnings'') = Inr ss \<longrightarrow>
      ''period'' \<notin> target ` set ss \<and> ''symbol'' \<notin> target ` set ss"
  proof
    assume "tsResponse P data (Some ''earnings'') = Inr ss"
    then have "\<forall>s \<in> set ss. target s \<notin> set excludedFields"
      using earnings_response_names [of P data ss] by (simp add: tsResponse_earnings)
    then show "''period'' \<notin> target ` set ss \<and> ''symbol'' \<notin> target ` set ss"
      by (force simp add: excludedFields_def)
  qed
  have b: "tsResponse P (JArr (map JObj (dp # dps))) (Some ''earnings'')
       = Inr (map (\<lambda>key. \<lparr>target = key,
                            datapoints = map (\<lambda>kvs. (own_property kvs key,
                                          Date_getTime P (own_property kvs ''period'')))
                                           (dp # dps)\<rparr>)
                (filter (\<lambda>key. key \<noteq> ''period'' \<and> key \<noteq> ''symbol'') (map fst dp)))"
    for dp dps
    by (simp only: tsResponse_earnings earnings_response_objects)
  have p: "earnings_payload = JArr (map JObj
             ([(''period'', JStr ''2020-01-01''), (''symbol'', JStr ''AAPL''),
               (''actual'', JNum 1.1), (''estimate'', JNum 1.0)] # []))"
    by (simp add: earnings_payload_def)
  have c: "tsResponse P earnings_payload (Some ''earnings'')
       = Inr [\<lparr>target = ''actual'',
               datapoints = [(JNum 1.1, Date_getTime P (JStr ''2020-01-01''))]\<rparr>,
              \<lparr>target = ''estimate'',
               datapoints = [(JNum 1.0, Date_getTime P (JStr ''2020-01-01''))]\<rparr>]"
    by (simp only: p b) (simp add: own_property_def)
  from a b c show ?thesis
    by blast
qed

lemma date_2020_01_01: "date_only_ms (JStr ''2020-01-01'') = JNum 1577836800000"
  by code_simp

lemma date_2020_04_01: "date_only_ms (JStr ''2020-04-01'') = JNum 1585699200000"
  by code_simp

text \<open>
  C7 on a platform whose \<open>Date\<close> reads \<open>2020-01-01\<close> as midnight UTC: the timestamp is
  1577836800000.
\<close>

theorem C7_witness:
  "tsResponse example_platform earnings_payload (Some ''earnings'')
       = Inr [\<lparr>target = ''actual'', datapoints = [(JNum 1.1, JNum 1577836800000)]\<rparr>,
              \<lparr>target = ''estimate'', datapoints = [(JNum 1.0, JNum 1577836800000)]\<rparr>]
   \<and> ''period'' \<notin> target ` set [\<lparr>target = ''actual'', datapoints = [(JNum 1.1, JNum 1577836800000)]\<rparr>,
              \<lparr>target = ''estimate'', datapoints = [(JNum 1.0, JNum 1577836800000)]\<rparr>]"
  using C7_earnings_series [of example_platform earnings_payload
     "[\<lparr>target = ''actual'', datapoints = [(JNum 1.1, JNum 1577836800000)]\<rparr>,
              \<lparr>target = ''estimate'', datapoints = [(JNum 1.0, JNum 1577836800000)]\<rparr>]" "[]" "[]"]
  by (simp add: example_platform_def date_2020_01_01)

text \<open>
  C7 as it was stated fails at a payload of two data points with different fields: the
  second data point has the field \<open>estimate\<close>, and there is no series of that name.
\<close>

theorem C7_counterexample:
  "tsResponse example_platform mixed_earnings_payload (Some ''earnings'')
     = Inr [\<lparr>target = ''actual'',
             datapoints = [(JNum 1.1, JNum 1577836800000), (JUndefined, JNum 1585699200000)]\<rparr>]
   \<and> js_index mixed_earnings_payload 1
     = Inr (JObj [(''period'', JStr ''2020-04-01''), (''estimate'', JNum 1.0)])"
proof -
  have p: "mixed_earnings_payload = JArr (map JObj
     ([(''period'', JStr ''2020-01-01''), (''actual'', JNum 1.1)] #
      [[(''period'', JStr ''2020-04-01''), (''estimate'', JNum 1.0)]]))"
    by (simp add: mixed_earnings_payload_def)
  have "tsResponse example_platform mixed_earnings_payload (Some ''earnings'')
     = Inr [\<lparr>target = ''actual'',
             datapoints = [(JNum 1.1, JNum 1577836800000), (JUndefined, JNum 1585699200000)]\<rparr>]"
    by (simp only: p tsResponse_earnings earnings_response_objects)
       (simp add: own_property_def example_platform_def date_2020_01_01 date_2020_04_01)
  then show ?thesis
    by (simp add: mixed_earnings_payload_def element_def)
qed


lemma collect_Inr_prod:
  "collect (map (\<lambda>(i, x). Inr (g i x)) ps) = Inr (map (\<lambda>(i, x). g i x) ps)"
  using collect_Inr [of "\<lambda>p. g (fst p) (snd p)" ps] by (simp add: case_prod_unfold)

lemma js_map_Inr:
  "js_map (JArr xs) (\<lambda>x i. Inr (g i x)) = Inr (map (\<lambda>(i, x). g i x) (enumerate 0 xs))"
  by (simp add: js_map_array collect_Inr_prod)

lemma candle_response_arrays:
  assumes "own_property kvs ''t'' = JArr ts"
    and "own_property kvs ''o'' = JArr os"
    and "own_property kvs ''c'' = JArr cs"
  shows "candle_response P (JObj kvs)
     = Inr [\<lparr>target = ''open price'',
             datapoints = map (\<lambda>(i, time). (element os i, js_times P time 1000))
                            (enumerate 0 ts)\<rparr>,
            \<lparr>target = ''close price'',
             datapoints = map (\<lambda>(i, time). (element cs i, js_times P time 1000))
                            (enumerate 0 ts)\<rparr>]"
proof -
  have o: "take 1 ''open price'' = ''o''" and c: "take 1 ''close price'' = ''c''"
    by simp_all
  show ?thesis
    by (simp add: candle_response_def candle_fields_def assms o c js_map_Inr)
qed

lemma enumerate_zip:
  assumes "length ts \<le> length vs"
  shows "map (\<lambda>(i, time). (element vs i, f time)) (enumerate 0 ts) = zip vs (map f ts)"
proof (rule nth_equalityI)
  show "length (map (\<lambda>(i, time). (element vs i, f time)) (enumerate 0 ts))
          = length (zip vs (map f ts))"
    using assms by simp
next
  fix i assume "i < length (map (\<lambda>(i, time). (element vs i, f time)) (enumerate 0 ts))"
  then have i: "i < length ts"
    by simp
  with assms have "i < length vs"
    by simp
  with i show "map (\<lambda>(i, time). (element vs i, f time)) (enumerate 0 ts) ! i
                 = zip vs (map f ts) ! i"
    by (simp add: nth_enumerate_eq element_def)
qed

lemma tsResponse_candle: "tsResponse P data (Some ''candle'') = candle_response P data"
  by (simp add: tsResponse_def)

lemma js_times_exact:
  "exact_integer x \<Longrightarrow> exact_integer k \<Longrightarrow> exact_integer (x * k) \<Longrightarrow>
   js_times P (JNum x) k = JNum (x * k)"
  by (simp add: js_times_def)

lemma js_times_example:
  "js_times P (JNum 100) 1000 = JNum 100000" "js_times P (JNum 200) 1000 = JNum 200000"
  by (simp_all add: js_times_def exact_integer_def)

text \<open>
  C8, as the code has it. For every candle payload that is an object whose \<open>t\<close>, \<open>o\<close>
  and \<open>c\<close> are arrays, the time-series normalizer yields exactly two series,
  \<open>open price\<close> and \<open>close price\<close> in this order, each with one sample for every
  element of \<open>t\<close>: the element of \<open>o\<close>, or of \<open>c\<close>, at the same position (\<open>undefined\<close>
  where the column has none) with the time multiplied by 1000. When \<open>o\<close> and \<open>c\<close> have
  an element for every time, the samples are the columns zipped with the scaled times.
  A time that is an integer number of seconds, held exactly like its thousandfold,
  becomes that number times 1000.
\<close>

theorem C8_candle_series:
  assumes "own_property kvs ''t'' = JArr ts"
    and "own_property kvs ''o'' = JArr os"
    and "own_property kvs ''c'' = JArr cs"
  shows "tsResponse P (JObj kvs) (Some ''candle'')
     = Inr [\<lparr>target = ''open price'',
             datapoints = map (\<lambda>(i, time). (element os i, js_times P time 1000))
                            (enumerate 0 ts)\<rparr>,
            \<lparr>target = ''close price'',
             datapoints = map (\<lambda>(i, time). (element cs i, js_times P time 1000))
                            (enumerate 0 ts)\<rparr>]
    \<and> (length ts \<le> length os \<and> length ts \<le> length cs \<longrightarrow>
         tsResponse P (JObj kvs) (Some ''candle'')
           = Inr [\<lparr>target = ''open price'',
                   datapoints = zip os (map (\<lambda>time. js_times P time 1000) ts)\<rparr>,
                  \<lparr>target = ''close price'',
                   datapoints = zip cs (map (\<lambda>time. js_times P time 1000) ts)\<rparr>])
    \<and> (exact_integer seconds \<and> exact_integer (seconds * 1000) \<longrightarrow>
         js_times P (JNum seconds) 1000 = JNum (seconds * 1000))"
proof -
  have a: "tsResponse P (JObj kvs) (Some ''candle'')
     = Inr [\<lparr>target = ''open price'',
             datapoints = map (\<lambda>(i, time). (element os i, js_times P time 1000))
                            (enumerate 0 ts)\<rparr>,
            \<lparr>target = ''close price'',
             datapoints = map (\<lambda>(i, time). (element cs i, js_times P time 1000))
                            (enumerate 0 ts)\<rparr>]"
    by (simp only: tsResponse_candle candle_response_arrays [OF assms])
  have b: "tsResponse P (JObj kvs) (Some ''candle'')
           = Inr [\<lparr>target = ''open price'',
                   datapoints = zip os (map (\<lambda>time. js_times P time 1000) ts)\<rparr>,
                  \<lparr>target = ''close price'',
                   datapoints = zip cs (map (\<lambda>time. js_times P time 1000) ts)\<rparr>]"
    if "length ts \<le> length os" and "length ts \<le> length cs"
    by (simp only: a enumerate_zip [OF that(1)] enumerate_zip [OF that(2)])
  have k: "exact_integer 1000"
    by (simp add: exact_integer_def)
  have c: "js_times P (JNum seconds) 1000 = JNum (seconds * 1000)"
    if "exact_integer seconds" and "exact_integer (seconds * 1000)"
    using that k by (simp add: js_times_exact)
  from a b c show ?thesis
    by blast
qed

text \<open>
  C8 at the payload \<open>{t: [100, 200], o: [10, 11], c: [12, 13]}\<close>: the samples are
  (10, 100000), (11, 200000) and (12, 100000), (13, 200000).
\<close>

theorem C8_witness:
  "tsResponse example_platform candle_payload (Some ''candle'')
     = Inr [\<lparr>target = ''open price'',
             datapoints = [(JNum 10, JNum 100000), (JNum 11, JNum 200000)]\<rparr>,
            \<lparr>target = ''close price'',
             datapoints = [(JNum 12, JNum 100000), (JNum 13, JNum 200000)]\<rparr>]
   \<and> exact_integer 100 \<and> exact_integer (100 * 1000)"
proof -
  have e: "exact_integer 100" "exact_integer (100 * 1000)"
    by (simp_all add: exact_integer_def)
  from C8_candle_series
    [of "[(''t'', JArr [JNum 100, JNum 200]), (''o'', JArr [JNum 10, JNum 11]),
          (''c'', JArr [JNum 12, JNum 13])]"
        "[JNum 100, JNum 200]" "[JNum 10, JNum 11]" "[JNum 12, JNum 13]"
        example_platform 100] e
  show ?thesis
    by (simp add: candle_payload_def own_property_def js_times_example element_def)
qed

text \<open>
  C8 as it was stated fails at the provider's answer for a range without candles, which
  has no \<open>t\<close>: the normalizer throws a \<^verbatim>\<open>TypeError\<close> and yields no series. At a
  payload whose \<open>o\<close> has one element for two times, the second sample of \<open>open price\<close>
  has the value \<open>undefined\<close>, which zipping \<open>t\<close> with \<open>o\<close> does not give.
\<close>

theorem C8_counterexample:
  "tsResponse example_platform no_data_payload (Some ''candle'') = Inl TypeError
   \<and> tsResponse example_platform short_candle_payload (Some ''candle'')
     = Inr [\<lparr>target = ''open price'',
             datapoints = [(JNum 10, JNum 100000), (JUndefined, JNum 200000)]\<rparr>,
            \<lparr>target = ''close price'',
             datapoints = [(JNum 12, JNum 100000), (JNum 13, JNum 200000)]\<rparr>]"
proof -
  have a: "candle_response example_platform no_data_payload = Inl TypeError"
    by (simp add: candle_response_def candle_fields_def no_data_payload_def own_property_def
          js_map_def)
  have b: "candle_response example_platform short_candle_payload
     = Inr [\<lparr>target = ''open price'',
             datapoints = [(JNum 10, JNum 100000), (JUndefined, JNum 200000)]\<rparr>,
            \<lparr>target = ''close price'',
             datapoints = [(JNum 12, JNum 100000), (JNum 13, JNum 200000)]\<rparr>]"
    unfolding short_candle_payload_def
    by (subst candle_response_arrays
          [where ts = "[JNum 100, JNum 200]" and os = "[JNum 10]"
             and cs = "[JNum 12, JNum 13]"])
       (simp_all add: own_property_def enumerate_eq_zip element_def js_times_example)
  from a b show ?thesis
    by (simp add: tsResponse_candle)
qed

lemma combine_kind:
  assumes "combine I P ty data = Inr n"
  shows "((\<exists>tab. n = NTable tab) \<longleftrightarrow> getTargetType I ty = Inr Table)
       \<and> ((\<exists>ss. n = NSeries ss) \<longleftrightarrow> getTargetType I ty = Inr TimeSeries)"
proof -
  from assms obtain tt where tt: "getTargetType I ty = Inr tt"
    by (auto simp add: combine_def bind_err_def split: sum.splits)
  show ?thesis
  proof (cases tt)
    case Table
    with assms tt show ?thesis
      by (auto simp add: combine_def bind_err_def Let_def split: sum.splits)
  next
    case TimeSeries
    with assms tt show ?thesis
      by (auto simp add: combine_def bind_err_def Let_def split: sum.splits option.splits)
  qed
qed

text \<open>
  C5, as the code has it. For every target that goes through the request path, with a
  free-text override or without, the normalized result is a table exactly when
  \<open>getTargetType\<close> classifies the kind of the target (after the defaults) as a table,
  and a list of time series exactly when it classifies it as time series. The
  override decides how the request is issued, not the shape of the result.
\<close>

theorem C5_table_iff_classified_table:
  assumes "target_promise I P backendSrv ds rng tgt = Inr (msgs, Inr n)"
  shows "((\<exists>tab. n = NTable tab)
            \<longleftrightarrow> getTargetType I (type (with_defaults (defaultQuery I) tgt)) = Inr Table)
       \<and> ((\<exists>ss. n = NSeries ss)
            \<longleftrightarrow> getTargetType I (type (with_defaults (defaultQuery I) tgt)) = Inr TimeSeries)"
proof -
  from assms obtain data where
    "combine I P (type (with_defaults (defaultQuery I) tgt)) data = Inr n"
    by (auto simp add: target_promise_def Let_def bind_err_def
          split: sum.splits prod.splits option.splits list.splits)
  then show ?thesis
    by (rule combine_kind)
qed

lemma free_text_candle_promise:
  "target_promise example_imported example_platform (constant_backend candle_payload)
     ds example_range free_text_candle
   = Inr ([], Inr (NSeries
       [\<lparr>target = ''open price'',
         datapoints = [(JNum 10, JNum 100000), (JNum 11, JNum 200000)]\<rparr>,
        \<lparr>target = ''close price'',
         datapoints = [(JNum 12, JNum 100000), (JNum 13, JNum 200000)]\<rparr>]))"
proof -
  have r: "candle_response example_platform candle_payload
     = Inr [\<lparr>target = ''open price'',
             datapoints = [(JNum 10, JNum 100000), (JNum 11, JNum 200000)]\<rparr>,
            \<lparr>target = ''close price'',
             datapoints = [(JNum 12, JNum 100000), (JNum 13, JNum 200000)]\<rparr>]"
    unfolding candle_payload_def
    by (subst candle_response_arrays
          [where ts = "[JNum 100, JNum 200]" and os = "[JNum 10, JNum 11]"
             and cs = "[JNum 12, JNum 13]"])
       (simp_all add: own_property_def enumerate_eq_zip element_def js_times_example)
  have m: "js_get candle_payload ''metric'' = Inr JUndefined"
    by (simp add: candle_payload_def own_property_def)
  have c: "combine example_imported example_platform (Some \<lparr>value = Some ''candle''\<rparr>)
             candle_payload
     = Inr (NSeries
       [\<lparr>target = ''open price'',
         datapoints = [(JNum 10, JNum 100000), (JNum 11, JNum 200000)]\<rparr>,
        \<lparr>target = ''close price'',
         datapoints = [(JNum 12, JNum 100000), (JNum 13, JNum 200000)]\<rparr>])"
    by (simp add: combine_def example_imported_def spec_getTargetType_def opt_value_def m
          tsResponse_candle r)
  show ?thesis
    by (subst target_promise_free_text
          [where c = "CHR ''s''" and cs = "''tock/candle?symbol=AAPL&resolution=D&from=1&to=2''"])
       (simp_all add: with_defaults_example free_text_candle_def aapl_candle_def
          freeTextQuery_def constant_backend_def c)
qed

text \<open>
  C5 at a candle target with a free-text override, answered with a candle payload: the
  result is the two candle series, and the classifier says time series.
\<close>

theorem C5_witness:
  "target_promise example_imported example_platform (constant_backend candle_payload)
     example_ds example_range free_text_candle
   = Inr ([], Inr (NSeries
       [\<lparr>target = ''open price'',
         datapoints = [(JNum 10, JNum 100000), (JNum 11, JNum 200000)]\<rparr>,
        \<lparr>target = ''close price'',
         datapoints = [(JNum 12, JNum 100000), (JNum 13, JNum 200000)]\<rparr>]))
   \<and> getTargetType example_imported
       (type (with_defaults (defaultQuery example_imported) free_text_candle))
     = Inr TimeSeries"
  using C5_table_iff_classified_table [OF free_text_candle_promise [of example_ds]]
    free_text_candle_promise [of example_ds]
  by simp

text \<open>
  C5 as it was stated fails at that target: its free-text override is present, and the
  response of its batch holds two time series and no table.
\<close>

theorem C5_counterexample:
  "queryText free_text_candle = Some ''stock/candle?symbol=AAPL&resolution=D&from=1&to=2''
   \<and> snd (query example_imported example_platform (constant_backend candle_payload) example_ds
            \<lparr>targets = [free_text_candle], req_range = example_range\<rparr>)
     = Response ([], Inr
         [SeriesOut \<lparr>target = ''open price'',
                     datapoints = [(JNum 10, JNum 100000), (JNum 11, JNum 200000)]\<rparr>,
          SeriesOut \<lparr>target = ''close price'',
                     datapoints = [(JNum 12, JNum 100000), (JNum 13, JNum 200000)]\<rparr>])"
proof -
  have k: "opt_value (type free_text_candle) \<noteq> Some ''quote''"
    by (simp add: free_text_candle_def aapl_candle_def opt_value_def)
  from query_single_request [OF closeSockets_example k free_text_candle_promise]
  show ?thesis
    by (simp add: flat_def free_text_candle_def)
qed

end
